theory Spec2Isabelle
  imports Main "HOL-Library.Word"
begin

section \<open>Values and status records\<close>

text \<open>
  The additional data handed to a health indicator session is a
  \<^verbatim>\<open>Record<string, any>\<close>. A JavaScript value of type \<^verbatim>\<open>any\<close> is one of the
  following; nested objects are kept as property lists, since nothing below looks
  inside them.
\<close>

datatype jsval =
    VUndefined
  | VNull
  | VBool bool
  | VNum int
  | VStr string
  | VObj "(string \<times> jsval) list"

text \<open>
  \<^verbatim>\<open>type AdditionalData = Record<string, any>\<close>: an object as a map from its own
  property names to their values. A \<^verbatim>\<open>HealthIndicatorResult\<close> maps check keys to
  detail objects.
\<close>

type_synonym AdditionalData = "string \<rightharpoonup> jsval"

type_synonym HealthIndicatorResult = "string \<rightharpoonup> AdditionalData"

text \<open>
  The optional argument \<^verbatim>\<open>data?: T\<close> with \<^verbatim>\<open>T extends AdditionalData | string\<close>:
  left out, a string, or an object.
\<close>

datatype data_arg =
    Omitted
  | DString string
  | DObject AdditionalData

section \<open>The result builder (health-indicator.service.ts)\<close>

text \<open>\<^verbatim>\<open>class HealthIndicatorSession\<close> holds the key it was constructed with.\<close>

datatype HealthIndicatorSession = HealthIndicatorSession (key: string)

text \<open>\<^verbatim>\<open>HealthIndicatorService.check(key)\<close> returns a new session for the key.\<close>

definition check :: "string \<Rightarrow> HealthIndicatorSession" where
  "check k = HealthIndicatorSession k"

text \<open>
  \<^verbatim>\<open>down(data?)\<close>: \<^verbatim>\<open>additionalData\<close> starts as \<^verbatim>\<open>{}\<close>, becomes
  \<^verbatim>\<open>{ message: data }\<close> for a string and \<^verbatim>\<open>data\<close> for an object. The detail is the
  object literal \<^verbatim>\<open>{ status: 'down', ...additionalData }\<close>: the spread comes after
  the \<^verbatim>\<open>status\<close> property, so the properties of \<^verbatim>\<open>additionalData\<close> are written last
  (\<open>m ++ n\<close> takes the entry of \<open>n\<close> where both have one). The result is
  \<^verbatim>\<open>{ [this.key]: detail }\<close>.
\<close>

definition down :: "HealthIndicatorSession \<Rightarrow> data_arg \<Rightarrow> HealthIndicatorResult" where
  "down session data =
     (let additionalData =
            (case data of
               DString s \<Rightarrow> [''message'' \<mapsto> VStr s]
             | DObject d \<Rightarrow> d
             | Omitted \<Rightarrow> Map.empty);
          detail = [''status'' \<mapsto> VStr ''down''] ++ additionalData
      in [key session \<mapsto> detail])"

text \<open>\<^verbatim>\<open>up(data?)\<close> is the same code with the literal \<^verbatim>\<open>'up'\<close>.\<close>

definition up :: "HealthIndicatorSession \<Rightarrow> data_arg \<Rightarrow> HealthIndicatorResult" where
  "up session data =
     (let additionalData =
            (case data of
               DString s \<Rightarrow> [''message'' \<mapsto> VStr s]
             | DObject d \<Rightarrow> d
             | Omitted \<Rightarrow> Map.empty);
          detail = [''status'' \<mapsto> VStr ''up''] ++ additionalData
      in [key session \<mapsto> detail])"

section \<open>Errors, numbers and promises\<close>

text \<open>
  The errors that can travel through the probe, by class, each with the \<^verbatim>\<open>message\<close> of
  a JavaScript \<^verbatim>\<open>Error\<close>: the \<^verbatim>\<open>TimeoutError\<close> of \<^verbatim>\<open>utils\<close> (imported as
  \<^verbatim>\<open>PromiseTimeoutError\<close>), the \<^verbatim>\<open>MongoConnectionError\<close> of \<^verbatim>\<open>errors\<close>, the setup
  error of the package check (caller and missing packages), the error of a failed
  \<^verbatim>\<open>require\<close>, and any other error (a driver's, a \<^verbatim>\<open>TypeError\<close>, ...).
\<close>

datatype error =
    PromiseTimeoutError string
  | MongoConnectionError string
  | MissingPackagesError string "string list"
  | ModuleNotFoundError string
  | OtherError string

fun message :: "error \<Rightarrow> string" where
  "message (PromiseTimeoutError m) = m"
| "message (MongoConnectionError m) = m"
| "message (MissingPackagesError caller missing) = caller @ concat (map (\<lambda>p. CHR '' '' # p) missing)"
| "message (ModuleNotFoundError name) = name"
| "message (OtherError m) = m"

text \<open>
  \<^verbatim>\<open>timeout?: number\<close>. The probe does three things with this number: it tests its
  truthiness, it prints it in a template literal, and it sets a timer to it. A JavaScript
  number is one of:
  \<^item> \<open>Num n\<close>, a non-negative safe integer, from \<^verbatim>\<open>0\<close> to
    \<^verbatim>\<open>Number.MAX_SAFE_INTEGER\<close> (\<open>2^53 - 1\<close>); \<^verbatim>\<open>-0\<close> is falsy and prints as
    \<^verbatim>\<open>0\<close>, so here it is \<open>Num 0\<close>;
  \<^item> \<open>NaN\<close>;
  \<^item> \<open>Other r d\<close>, any other number (negative, fractional, beyond the safe integers,
    infinite), given by what the probe can see of it: \<open>r\<close> is the text it prints as
    (\<^verbatim>\<open>-5\<close>, \<^verbatim>\<open>2.5\<close>, \<^verbatim>\<open>1e+21\<close>, \<^verbatim>\<open>Infinity\<close>), and \<open>d\<close> the whole
    milliseconds that a timer set to it lasts.
\<close>

datatype number = Num "53 word" | NaN | Other string nat

text \<open>
  JavaScript truthiness of a number: \<^verbatim>\<open>0\<close>, \<^verbatim>\<open>-0\<close> and \<^verbatim>\<open>NaN\<close> are falsy, every
  other number is truthy.
\<close>

fun truthy :: "number \<Rightarrow> bool" where
  "truthy (Num n) = (n \<noteq> 0)"
| "truthy NaN = False"
| "truthy (Other r d) = True"

definition digit_char :: "nat \<Rightarrow> char" where
  "digit_char d = ''0123456789'' ! d"

fun digits :: "nat \<Rightarrow> string" where
  "digits n = (if n < 10 then [digit_char n] else digits (n div 10) @ [digit_char (n mod 10)])"

declare digits.simps [simp del]

text \<open>
  The text a number contributes to a template literal \<^verbatim>\<open>`${timeout}`\<close>: a safe
  integer prints as its decimal numeral.
\<close>

fun toString :: "number \<Rightarrow> string" where
  "toString (Num n) = digits (unat n)"
| "toString NaN = ''NaN''"
| "toString (Other r d) = r"

text \<open>
  What awaiting a promise observes: it settles after some milliseconds, rejected with an
  error (\<open>Inl\<close>) or fulfilled with a value (\<open>Inr\<close>), or it never settles.
\<close>

datatype 'a promise = Settles nat "error + 'a" | Never

text \<open>
  The whole milliseconds that a timer of \<open>ms\<close> milliseconds lasts. In the spec the race
  returns no later than the timeout, so every timer fires.
\<close>

fun timer_delay :: "number \<Rightarrow> nat" where
  "timer_delay (Num n) = unat n"
| "timer_delay NaN = 0"
| "timer_delay (Other r d) = d"

text \<open>
  Modelled from the spec: \<^verbatim>\<open>promiseTimeout(ms, promise)\<close> of \<^verbatim>\<open>utils\<close>, which is not
  among the sources. The spec: race the chosen check against a timer of \<open>timeout\<close> ms; if
  the timer fires first, the race fails with a Timeout error kind carrying no partial
  result. So the race has the outcome of the promise unless the timer fires strictly
  before the promise settles. The spec fixes the kind of the error only: its message is
  left empty, and nothing reads it. The result is what \<^verbatim>\<open>await\<close> makes of the race.
\<close>

definition promiseTimeout :: "number \<Rightarrow> 'a promise \<Rightarrow> error + 'a" where
  "promiseTimeout ms p =
     (case p of
        Never \<Rightarrow> Inl (PromiseTimeoutError [])
      | Settles t r \<Rightarrow> if timer_delay ms < t then Inl (PromiseTimeoutError []) else r)"

section \<open>The world around the probe\<close>

text \<open>
  The native client that \<^verbatim>\<open>MongoClient.connect\<close> resolves to: all the probe does with
  it is \<^verbatim>\<open>client.close()\<close>. A \<^verbatim>\<open>close\<close> that throws at once is, inside a \<^verbatim>\<open>then\<close>
  callback, a promise rejected at once.
\<close>

datatype MongoClient = MongoClient (close: "jsval promise")

text \<open>
  The connection handle (\<^verbatim>\<open>TypeOrm.DataSource\<close>) as far as the probe touches it:
  \<^verbatim>\<open>connection.options.type\<close>, \<^verbatim>\<open>connection.options.url\<close>, \<^verbatim>\<open>connection.query(sql)\<close>,
  and of \<^verbatim>\<open>connection.driver\<close> the calls \<^verbatim>\<open>buildConnectionUrl(options)\<close>,
  \<^verbatim>\<open>buildConnectionOptions(options)\<close> and \<^verbatim>\<open>mongodb.MongoClient.connect(url, opts)\<close>,
  each of which may throw instead of returning. A \<^verbatim>\<open>query\<close> that throws at once is,
  inside the \<^verbatim>\<open>async\<close> function \<^verbatim>\<open>pingDb\<close>, a promise rejected at once.
\<close>

record DataSource =
  options_type :: string
  options_url :: "string option"
  query :: "string \<Rightarrow> jsval promise"
  driver_buildConnectionUrl :: "error + string"
  driver_buildConnectionOptions :: "error + jsval"
  driver_mongodb_MongoClient_connect :: "string \<Rightarrow> jsval \<Rightarrow> error + MongoClient promise"

text \<open>
  What lies outside the indicator at the time of a call: which module names
  \<^verbatim>\<open>require\<close> can resolve, and what
  \<^verbatim>\<open>moduleRef.get(getDataSourceToken(), { strict: false })\<close> does: throw, or return
  the provider registered in the application context (possibly nothing).
\<close>

record world =
  resolvable :: "string \<Rightarrow> bool"
  moduleRef_get :: "error + DataSource option"

text \<open>The requests the probe sends to a backend, in the order it sends them.\<close>

datatype action =
    Query string
  | MongoConnect string jsval
  | MongoClose

text \<open>\<^verbatim>\<open>interface TypeOrmPingCheckSettings\<close>; the default \<^verbatim>\<open>{}\<close> has neither field.\<close>

record TypeOrmPingCheckSettings =
  connection :: "DataSource option"
  timeout :: "number option"

section \<open>The TypeORM health indicator (typeorm.health.ts)\<close>

text \<open>
  Node's \<^verbatim>\<open>require(name)\<close>: it returns the module, or throws when the name cannot be
  resolved. The probe uses nothing of the module but the token it yields.
\<close>

definition require :: "world \<Rightarrow> string \<Rightarrow> error + unit" where
  "require w name = (if resolvable w name then Inr () else Inl (ModuleNotFoundError name))"

text \<open>
  Modelled from the spec: \<^verbatim>\<open>checkPackages(names, caller)\<close> of \<^verbatim>\<open>utils\<close>, which is not
  among the sources. The spec: given a list of required optional library names and a
  caller name, verifies they are resolvable and fails fast with a descriptive setup error
  naming the caller and missing libraries if not.
\<close>

definition checkPackages :: "world \<Rightarrow> string list \<Rightarrow> string \<Rightarrow> error + unit" where
  "checkPackages w names caller =
     (let missing = filter (\<lambda>name. \<not> resolvable w name) names
      in if missing = [] then Inr () else Inl (MissingPackagesError caller missing))"

definition checkDependantPackages :: "world \<Rightarrow> error + unit" where
  "checkDependantPackages w =
     checkPackages w [''@nestjs/typeorm'', ''typeorm''] ''TypeOrmHealthIndicator''"

text \<open>
  \<^verbatim>\<open>getContextConnection()\<close>: the \<^verbatim>\<open>require\<close> stands before the \<^verbatim>\<open>try\<close>; whatever
  \<^verbatim>\<open>moduleRef.get\<close> throws is caught and becomes \<^verbatim>\<open>null\<close>.
\<close>

definition getContextConnection :: "world \<Rightarrow> error + DataSource option" where
  "getContextConnection w =
     (case require w ''@nestjs/typeorm/dist/common/typeorm.utils'' of
        Inl e \<Rightarrow> Inl e
      | Inr _ \<Rightarrow>
          (case moduleRef_get w of
             Inl err \<Rightarrow> Inr None
           | Inr c \<Rightarrow> Inr c))"

text \<open>
  \<^verbatim>\<open>connection.options.url ? connection.options.url : driver.buildConnectionUrl(...)\<close>:
  an absent or empty url is falsy.
\<close>

definition mongo_url :: "DataSource \<Rightarrow> error + string" where
  "mongo_url c =
     (case options_url c of
        Some u \<Rightarrow> if u \<noteq> [] then Inr u else driver_buildConnectionUrl c
      | None \<Rightarrow> driver_buildConnectionUrl c)"

text \<open>
  \<^verbatim>\<open>checkMongoDBConnection(connection)\<close>, with the requests it sends. An exception
  thrown inside the executor of \<^verbatim>\<open>new Promise\<close> rejects the promise at once. When
  \<^verbatim>\<open>connect\<close> rejects, the first \<^verbatim>\<open>catch\<close> rejects the outer promise with a
  \<^verbatim>\<open>MongoConnectionError\<close> of the same message; the steps after it (\<^verbatim>\<open>close\<close> on
  \<^verbatim>\<open>undefined\<close>, swallowed; \<^verbatim>\<open>resolve\<close> on a settled promise) change nothing. When
  \<^verbatim>\<open>connect\<close> resolves, \<^verbatim>\<open>client.close()\<close> is awaited, the second \<^verbatim>\<open>catch\<close> turns its
  rejection into a fulfilment, and \<^verbatim>\<open>resolve()\<close> follows.
\<close>

definition checkMongoDBConnection :: "DataSource \<Rightarrow> action list \<times> jsval promise" where
  "checkMongoDBConnection c =
     (case mongo_url c of
        Inl e \<Rightarrow> ([], Settles 0 (Inl e))
      | Inr url \<Rightarrow>
          (case driver_buildConnectionOptions c of
             Inl e \<Rightarrow> ([], Settles 0 (Inl e))
           | Inr opts \<Rightarrow>
               (case driver_mongodb_MongoClient_connect c url opts of
                  Inl e \<Rightarrow> ([MongoConnect url opts], Settles 0 (Inl e))
                | Inr Never \<Rightarrow> ([MongoConnect url opts], Never)
                | Inr (Settles t1 (Inl err)) \<Rightarrow>
                    ([MongoConnect url opts],
                     Settles t1 (Inl (MongoConnectionError (message err))))
                | Inr (Settles t1 (Inr client)) \<Rightarrow>
                    (case close client of
                       Never \<Rightarrow> ([MongoConnect url opts, MongoClose], Never)
                     | Settles t2 closed \<Rightarrow>
                         ([MongoConnect url opts, MongoClose],
                          Settles (t1 + t2) (Inr VUndefined))))))"

text \<open>
  \<^verbatim>\<open>pingDb(connection, timeout)\<close>: the \<^verbatim>\<open>switch\<close> on \<^verbatim>\<open>connection.options.type\<close>
  chooses the check, and the check is raced against the timer.
\<close>

definition pingDb :: "DataSource \<Rightarrow> number \<Rightarrow> action list \<times> (error + jsval)" where
  "pingDb c ms =
     (let (sent, chk) =
            (if options_type c = ''mongodb'' then checkMongoDBConnection c
             else if options_type c = ''oracle'' then
               ([Query ''SELECT 1 FROM DUAL''], query c ''SELECT 1 FROM DUAL'')
             else if options_type c = ''sap'' then
               ([Query ''SELECT now() FROM dummy''], query c ''SELECT now() FROM dummy'')
             else ([Query ''SELECT 1''], query c ''SELECT 1''))
      in (sent, promiseTimeout ms chk))"

text \<open>\<^verbatim>\<open>options.connection || this.getContextConnection()\<close>: a handle is truthy.\<close>

definition resolve_connection ::
  "world \<Rightarrow> TypeOrmPingCheckSettings \<Rightarrow> error + DataSource option" where
  "resolve_connection w opts =
     (case connection opts of
        Some c \<Rightarrow> Inr (Some c)
      | None \<Rightarrow> getContextConnection w)"

text \<open>\<^verbatim>\<open>options.timeout || 1000\<close>: an absent or falsy timeout gives \<^verbatim>\<open>1000\<close>.\<close>

definition effective_timeout :: "TypeOrmPingCheckSettings \<Rightarrow> number" where
  "effective_timeout opts =
     (case timeout opts of
        Some n \<Rightarrow> if truthy n then n else Num 1000
      | None \<Rightarrow> Num 1000)"

text \<open>The \<^verbatim>\<open>catch\<close> block of \<^verbatim>\<open>pingCheck\<close>: the two \<^verbatim>\<open>instanceof\<close> tests, in order.\<close>

definition on_error ::
  "HealthIndicatorSession \<Rightarrow> string \<Rightarrow> number \<Rightarrow> error \<Rightarrow> HealthIndicatorResult" where
  "on_error session k ms err =
     (case err of
        PromiseTimeoutError _ \<Rightarrow>
          down session (DString (''timeout of '' @ toString ms @ ''ms exceeded''))
      | MongoConnectionError m \<Rightarrow> down session (DString m)
      | _ \<Rightarrow> down session (DString (k @ '' is not available'')))"

text \<open>
  \<^verbatim>\<open>pingCheck(key, options)\<close>: the requests sent, and either the error that leaves the
  call (\<open>Inl\<close>: the promise it returns is rejected) or the status record it resolves to.
  The package check and the lookup of the connection stand before the \<^verbatim>\<open>try\<close>.
\<close>

definition pingCheck ::
  "world \<Rightarrow> string \<Rightarrow> TypeOrmPingCheckSettings \<Rightarrow> action list \<times> (error + HealthIndicatorResult)" where
  "pingCheck w k opts =
     (let session = check k in
      case checkDependantPackages w of
        Inl e \<Rightarrow> ([], Inl e)
      | Inr _ \<Rightarrow>
          (case resolve_connection w opts of
             Inl e \<Rightarrow> ([], Inl e)
           | Inr conn \<Rightarrow>
               (let ms = effective_timeout opts in
                case conn of
                  None \<Rightarrow>
                    ([], Inr (down session
                                (DString ''Connection provider not found in application context'')))
                | Some c \<Rightarrow>
                    (case pingDb c ms of
                       (sent, Inl err) \<Rightarrow> (sent, Inr (on_error session k ms err))
                     | (sent, Inr _) \<Rightarrow> (sent, Inr (up session Omitted))))))"

section \<open>Example handles and worlds\<close>

text \<open>A relational handle of the given backend kind whose every query has the given fate.\<close>

definition sql_handle :: "string \<Rightarrow> jsval promise \<Rightarrow> DataSource" where
  "sql_handle kind answer =
     \<lparr> options_type = kind,
       options_url = None,
       query = (\<lambda>sql. answer),
       driver_buildConnectionUrl = Inr [],
       driver_buildConnectionOptions = Inr VUndefined,
       driver_mongodb_MongoClient_connect =
         (\<lambda>url opts. Inl (OtherError ''not a MongoDB driver'')) \<rparr>"

text \<open>A MongoDB handle with a configured url whose native \<^verbatim>\<open>connect\<close> has the given fate.\<close>

definition mongo_handle :: "MongoClient promise \<Rightarrow> DataSource" where
  "mongo_handle opening =
     \<lparr> options_type = ''mongodb'',
       options_url = Some ''mongodb://localhost/test'',
       query = (\<lambda>sql. Settles 0 (Inl (OtherError ''not supported''))),
       driver_buildConnectionUrl = Inr ''mongodb://localhost/test'',
       driver_buildConnectionOptions = Inr VUndefined,
       driver_mongodb_MongoClient_connect = (\<lambda>url opts. Inr opening) \<rparr>"

text \<open>
  An application with the packages installed and no data source registered in its
  context, and the same application with no package resolvable.
\<close>

definition installed :: world where
  "installed =
     \<lparr> resolvable =
         (\<lambda>name. name \<in> set [''@nestjs/typeorm'', ''typeorm'',
                               ''@nestjs/typeorm/dist/common/typeorm.utils'']),
       moduleRef_get = Inl (OtherError ''Nest could not find DataSource element'') \<rparr>"

definition uninstalled :: world where
  "uninstalled = installed \<lparr> resolvable := (\<lambda>name. False) \<rparr>"

text \<open>An application where \<^verbatim>\<open>typeorm\<close> itself is missing and nothing else is.\<close>

definition typeorm_missing :: world where
  "typeorm_missing =
     \<lparr> resolvable =
         (\<lambda>name. name \<in> set [''@nestjs/typeorm'',
                               ''@nestjs/typeorm/dist/common/typeorm.utils'']),
       moduleRef_get = Inr None \<rparr>"

definition settings :: "DataSource option \<Rightarrow> number option \<Rightarrow> TypeOrmPingCheckSettings" where
  "settings c ms = \<lparr> connection = c, timeout = ms \<rparr>"

section \<open>Properties of the result builder\<close>

lemma down_message:
  "down (check k) (DString s) =
     [k \<mapsto> [''status'' \<mapsto> VStr ''down'', ''message'' \<mapsto> VStr s]]"
  by (simp add: down_def check_def)

lemma up_plain: "up (check k) Omitted = [k \<mapsto> [''status'' \<mapsto> VStr ''up'']]"
  by (simp add: up_def check_def)

lemma down_plain: "down (check k) Omitted = [k \<mapsto> [''status'' \<mapsto> VStr ''down'']]"
  by (simp add: down_def check_def)

text \<open>
  The \<^verbatim>\<open>status\<close> of the detail object is the literal exactly when the additional data
  has no \<^verbatim>\<open>status\<close> property of its own; otherwise it is the value from the data.
\<close>

lemma up_status_of_detail:
  "up (check k) d k = Some detail \<Longrightarrow>
     detail ''status'' =
       (case d of
          DObject m \<Rightarrow> (case m ''status'' of None \<Rightarrow> Some (VStr ''up'') | Some v \<Rightarrow> Some v)
        | _ \<Rightarrow> Some (VStr ''up''))"
  by (auto simp add: up_def check_def map_add_def split: data_arg.splits option.splits)

lemma down_status_of_detail:
  "down (check k) d k = Some detail \<Longrightarrow>
     detail ''status'' =
       (case d of
          DObject m \<Rightarrow> (case m ''status'' of None \<Rightarrow> Some (VStr ''down'') | Some v \<Rightarrow> Some v)
        | _ \<Rightarrow> Some (VStr ''down''))"
  by (auto simp add: down_def check_def map_add_def split: data_arg.splits option.splits)

text \<open>
  C1. The specification: the detail object of \<^verbatim>\<open>check(k).up(d)\<close> and \<^verbatim>\<open>check(k).down(d)\<close> has
  the status of the operation called, even when \<open>d\<close> has a \<^verbatim>\<open>status\<close> field of its own.
  The code at such an input: \<^verbatim>\<open>check('db').down({ status: 'up' })\<close> is
  \<^verbatim>\<open>{ db: { status: 'up' } }\<close>, and \<^verbatim>\<open>check('db').up({ status: 'down' })\<close> is
  \<^verbatim>\<open>{ db: { status: 'down' } }\<close>: the spread after the literal overwrites it.
\<close>

theorem status_overwritten_by_data:
  "down (check ''db'') (DObject [''status'' \<mapsto> VStr ''up'']) =
     [''db'' \<mapsto> [''status'' \<mapsto> VStr ''up'']]
   \<and> up (check ''db'') (DObject [''status'' \<mapsto> VStr ''down'']) =
     [''db'' \<mapsto> [''status'' \<mapsto> VStr ''down'']]"
  by (simp add: down_def up_def check_def)

text \<open>
  C3. For every key \<open>k\<close> and every additional data \<open>d\<close> (object, string or omitted),
  the records returned by \<^verbatim>\<open>check(k).up(d)\<close> and \<^verbatim>\<open>check(k).down(d)\<close> have exactly one
  entry, and its key is \<open>k\<close>.
\<close>

theorem only_key_is_session_key:
  "dom (up (check k) d) = {k} \<and> dom (down (check k) d) = {k}"
  by (simp add: up_def down_def check_def)

text \<open>
  C9. For every key \<open>k\<close> and string \<open>s\<close>, \<^verbatim>\<open>check(k).up(s)\<close> equals
  \<^verbatim>\<open>check(k).up({ message: s })\<close>, and likewise for \<^verbatim>\<open>down\<close>; with the argument left
  out, the additional data is the empty object.
\<close>

theorem string_is_message_object:
  "up (check k) (DString s) = up (check k) (DObject [''message'' \<mapsto> VStr s])
   \<and> down (check k) (DString s) = down (check k) (DObject [''message'' \<mapsto> VStr s])
   \<and> up (check k) Omitted = up (check k) (DObject Map.empty)
   \<and> down (check k) Omitted = down (check k) (DObject Map.empty)"
  by (simp add: up_def down_def)

section \<open>Properties of the connectivity probe\<close>

lemmas example_defs =
  sql_handle_def mongo_handle_def installed_def uninstalled_def typeorm_missing_def settings_def

lemmas probe_defs =
  checkDependantPackages_def checkPackages_def require_def getContextConnection_def
  resolve_connection_def effective_timeout_def mongo_url_def checkMongoDBConnection_def
  pingDb_def promiseTimeout_def on_error_def

lemmas number_defs = digits.simps digit_char_def

text \<open>
  Once the package check has passed and a handle is at hand, \<^verbatim>\<open>pingCheck\<close> is
  \<^verbatim>\<open>pingDb\<close> under the effective timeout followed by the classification of its outcome.
\<close>

lemma pingCheck_with_handle:
  assumes "checkDependantPackages w = Inr ()"
      and "resolve_connection w opts = Inr (Some c)"
  shows "pingCheck w k opts =
           (fst (pingDb c (effective_timeout opts)),
            Inr (case snd (pingDb c (effective_timeout opts)) of
                   Inl err \<Rightarrow> on_error (check k) k (effective_timeout opts) err
                 | Inr v \<Rightarrow> up (check k) Omitted))"
  using assms
  by (cases "pingDb c (effective_timeout opts)")
     (simp add: pingCheck_def Let_def split: sum.splits)

lemma pingCheck_without_handle:
  assumes "checkDependantPackages w = Inr ()"
      and "resolve_connection w opts = Inr None"
  shows "pingCheck w k opts =
           ([], Inr (down (check k)
                       (DString ''Connection provider not found in application context'')))"
  using assms by (simp add: pingCheck_def)

lemma checkMongoDBConnection_sends_no_query:
  "Query sql \<notin> set (fst (checkMongoDBConnection c))"
  by (simp add: checkMongoDBConnection_def split: sum.splits promise.splits)

lemma installed_ok: "checkDependantPackages installed = Inr ()"
  by (simp add: probe_defs example_defs)

lemma supplied_handle: "resolve_connection w (settings (Some c) ms) = Inr (Some c)"
  by (simp add: resolve_connection_def settings_def)

text \<open>
  C2, as the code has it. The specification: no exception ever leaves \<^verbatim>\<open>pingCheck\<close>, the per-call
  package check included. In the code the call of \<^verbatim>\<open>checkDependantPackages\<close> stands
  before the \<^verbatim>\<open>try\<close>: with the packages missing, the setup error leaves the call.
\<close>

theorem package_check_escapes:
  "snd (pingCheck uninstalled ''db'' (settings None None)) =
     Inl (MissingPackagesError ''TypeOrmHealthIndicator'' [''@nestjs/typeorm'', ''typeorm''])"
  by (simp add: pingCheck_def probe_defs example_defs)

text \<open>
  C2, amended. Once the per-call package check has passed (and, when no connection is
  supplied, the helper module of \<^verbatim>\<open>@nestjs/typeorm\<close> that yields the data source token can
  be loaded), \<^verbatim>\<open>pingCheck\<close> lets no exception escape: a failing lookup of the connection
  handle and every failure of the liveness check end in a status record whose only key
  is the key given. The per-call package check itself is not caught: when it fails, its
  setup error leaves \<^verbatim>\<open>pingCheck\<close> and nothing is sent.
\<close>

theorem record_once_packages_present:
  "(checkDependantPackages w = Inr ()
      \<and> (connection opts \<noteq> None \<or> resolvable w ''@nestjs/typeorm/dist/common/typeorm.utils'')
    \<longrightarrow> (\<exists>r. snd (pingCheck w k opts) = Inr r \<and> dom r = {k}))
   \<and> (checkDependantPackages w = Inl e \<longrightarrow> pingCheck w k opts = ([], Inl e))"
proof (intro conjI impI)
  assume present: "checkDependantPackages w = Inr ()
      \<and> (connection opts \<noteq> None \<or> resolvable w ''@nestjs/typeorm/dist/common/typeorm.utils'')"
  show "\<exists>r. snd (pingCheck w k opts) = Inr r \<and> dom r = {k}"
  proof (cases "resolve_connection w opts")
    case (Inl err)
    with present show ?thesis
      by (auto simp add: resolve_connection_def getContextConnection_def require_def
               split: option.splits sum.splits if_splits)
  next
    case (Inr conn)
    show ?thesis
    proof (cases conn)
      case None
      with Inr present show ?thesis
        by (simp add: pingCheck_without_handle down_message)
    next
      case (Some c)
      with Inr present show ?thesis
        by (simp add: pingCheck_with_handle on_error_def down_message up_plain
                 split: sum.splits error.splits)
    qed
  qed
next
  assume "checkDependantPackages w = Inl e"
  then show "pingCheck w k opts = ([], Inl e)"
    by (simp add: pingCheck_def)
qed

theorem record_once_packages_present_witness:
  "checkDependantPackages installed = Inr ()
   \<and> resolvable installed ''@nestjs/typeorm/dist/common/typeorm.utils''
   \<and> (\<exists>r. snd (pingCheck installed ''db'' (settings None None)) = Inr r \<and> dom r = {''db''})
   \<and> checkDependantPackages uninstalled =
        Inl (MissingPackagesError ''TypeOrmHealthIndicator'' [''@nestjs/typeorm'', ''typeorm''])
   \<and> pingCheck uninstalled ''db'' (settings None None) =
        ([], Inl (MissingPackagesError ''TypeOrmHealthIndicator'' [''@nestjs/typeorm'', ''typeorm'']))"
proof -
  have h1: "checkDependantPackages installed = Inr ()"
    by (rule installed_ok)
  have h2: "resolvable installed ''@nestjs/typeorm/dist/common/typeorm.utils''"
    by (simp add: example_defs)
  have h3: "checkDependantPackages uninstalled =
              Inl (MissingPackagesError ''TypeOrmHealthIndicator'' [''@nestjs/typeorm'', ''typeorm''])"
    by (simp add: probe_defs example_defs)
  have ok: "\<exists>r. snd (pingCheck installed ''db'' (settings None None)) = Inr r \<and> dom r = {''db''}"
    using record_once_packages_present [of installed "settings None None" "''db''"] h1 h2
    by blast
  have escaped: "pingCheck uninstalled ''db'' (settings None None) =
        ([], Inl (MissingPackagesError ''TypeOrmHealthIndicator'' [''@nestjs/typeorm'', ''typeorm'']))"
    using record_once_packages_present [of uninstalled "settings None None" "''db''"] h3
    by blast
  from h1 h2 ok h3 escaped show ?thesis
    by (intro conjI)
qed

text \<open>
  C4. The liveness request that the probe sends is chosen by the backend kind of the
  connection: \<^verbatim>\<open>'oracle'\<close> sends \<^verbatim>\<open>SELECT 1 FROM DUAL\<close>, \<^verbatim>\<open>'sap'\<close> sends
  \<^verbatim>\<open>SELECT now() FROM dummy\<close>, \<^verbatim>\<open>'mongodb'\<close> runs the side connection, which sends no
  query at all, and every other kind sends \<^verbatim>\<open>SELECT 1\<close>. (The package check has passed
  and the handle \<open>c\<close> is the one the call resolves.)
\<close>

theorem liveness_query_by_backend_kind:
  assumes "checkDependantPackages w = Inr ()"
      and "resolve_connection w opts = Inr (Some c)"
  shows "fst (pingCheck w k opts) =
           (if options_type c = ''mongodb'' then fst (checkMongoDBConnection c)
            else if options_type c = ''oracle'' then [Query ''SELECT 1 FROM DUAL'']
            else if options_type c = ''sap'' then [Query ''SELECT now() FROM dummy'']
            else [Query ''SELECT 1''])
         \<and> (\<forall>sql. Query sql \<notin> set (fst (checkMongoDBConnection c)))"
  using assms
  by (simp add: pingCheck_with_handle pingDb_def checkMongoDBConnection_sends_no_query
           split: prod.splits)

theorem liveness_query_by_backend_kind_witness:
  "checkDependantPackages installed = Inr ()
   \<and> fst (pingCheck installed ''db''
             (settings (Some (sql_handle ''oracle'' (Settles 5 (Inr VNull)))) None)) =
       [Query ''SELECT 1 FROM DUAL'']
   \<and> fst (pingCheck installed ''db''
             (settings (Some (sql_handle ''sap'' (Settles 5 (Inr VNull)))) None)) =
       [Query ''SELECT now() FROM dummy'']
   \<and> fst (pingCheck installed ''db''
             (settings (Some (sql_handle ''postgres'' (Settles 5 (Inr VNull)))) None)) =
       [Query ''SELECT 1'']
   \<and> fst (pingCheck installed ''db''
             (settings (Some (mongo_handle (Settles 5 (Inr (MongoClient (Settles 1 (Inr VUndefined))))))) None)) =
       [MongoConnect ''mongodb://localhost/test'' VUndefined, MongoClose]"
  using liveness_query_by_backend_kind [OF installed_ok supplied_handle, of "''db''" "sql_handle ''oracle'' (Settles 5 (Inr VNull))" None]
        liveness_query_by_backend_kind [OF installed_ok supplied_handle, of "''db''" "sql_handle ''sap'' (Settles 5 (Inr VNull))" None]
        liveness_query_by_backend_kind [OF installed_ok supplied_handle, of "''db''" "sql_handle ''postgres'' (Settles 5 (Inr VNull))" None]
        liveness_query_by_backend_kind [OF installed_ok supplied_handle, of "''db''" "mongo_handle (Settles 5 (Inr (MongoClient (Settles 1 (Inr VUndefined)))))" None]
        installed_ok
  by (simp add: sql_handle_def mongo_handle_def checkMongoDBConnection_def mongo_url_def)

text \<open>
  C5, as the code has it. The specification: with \<^verbatim>\<open>settings.connection\<close> absent and no
  default handle in the application context, \<^verbatim>\<open>pingCheck\<close> returns the down-record. In
  the code the per-call package check comes first, outside any \<^verbatim>\<open>try\<close>: with
  \<^verbatim>\<open>typeorm\<close> missing, the call ends with the setup error and no record.
\<close>

theorem no_connection_provider_counterexample:
  "connection (settings None None) = None
   \<and> moduleRef_get typeorm_missing = Inr None
   \<and> pingCheck typeorm_missing ''db'' (settings None None) =
        ([], Inl (MissingPackagesError ''TypeOrmHealthIndicator'' [''typeorm'']))"
  by (simp add: pingCheck_def probe_defs example_defs)

text \<open>
  C5, amended. For every key, when the per-call package check has passed and the helper
  module of \<^verbatim>\<open>@nestjs/typeorm\<close> that yields the data source token can be loaded, and
  \<^verbatim>\<open>settings.connection\<close> is absent and the application context yields no default
  handle (\<^verbatim>\<open>moduleRef.get\<close> throws or returns nothing), \<^verbatim>\<open>pingCheck\<close> returns the
  down-record with the message
  \<^verbatim>\<open>Connection provider not found in application context\<close> and sends no request.
\<close>

theorem no_connection_provider:
  assumes "checkDependantPackages w = Inr ()"
      and "resolvable w ''@nestjs/typeorm/dist/common/typeorm.utils''"
      and "connection opts = None"
      and "\<And>c. moduleRef_get w \<noteq> Inr (Some c)"
  shows "pingCheck w k opts =
           ([], Inr [k \<mapsto> [''status'' \<mapsto> VStr ''down'',
                            ''message'' \<mapsto> VStr ''Connection provider not found in application context'']])"
proof -
  have "getContextConnection w = Inr None"
  proof (cases "moduleRef_get w")
    case (Inl e)
    with assms(2) show ?thesis
      by (simp add: getContextConnection_def require_def)
  next
    case (Inr found)
    have "found = None"
    proof (cases found)
      case None
      then show ?thesis .
    next
      case (Some c)
      with Inr assms(4) [of c] show ?thesis by simp
    qed
    with Inr assms(2) show ?thesis
      by (simp add: getContextConnection_def require_def)
  qed
  with assms(3) have "resolve_connection w opts = Inr None"
    by (simp add: resolve_connection_def)
  with assms(1) show ?thesis
    by (simp add: pingCheck_without_handle down_message)
qed

theorem no_connection_provider_witness:
  "checkDependantPackages installed = Inr ()
   \<and> resolvable installed ''@nestjs/typeorm/dist/common/typeorm.utils''
   \<and> connection (settings None None) = None
   \<and> (\<forall>c. moduleRef_get installed \<noteq> Inr (Some c))
   \<and> pingCheck installed ''db'' (settings None None) =
        ([], Inr [''db'' \<mapsto> [''status'' \<mapsto> VStr ''down'',
                     ''message'' \<mapsto> VStr ''Connection provider not found in application context'']])"
proof -
  have h2: "resolvable installed ''@nestjs/typeorm/dist/common/typeorm.utils''"
    by (simp add: installed_def)
  have h3: "connection (settings None None) = None"
    by (simp add: settings_def)
  have h4: "moduleRef_get installed \<noteq> Inr (Some c)" for c
    by (simp add: installed_def)
  from no_connection_provider [OF installed_ok h2 h3 h4, of "''db''"] installed_ok h2 h3 h4
  show ?thesis by simp
qed

text \<open>
  C6, as the code has it. The specification: the budget is \<^verbatim>\<open>settings.timeout\<close> whenever that is
  supplied. With \<^verbatim>\<open>timeout: 0\<close> supplied and a query that never answers, the budget is
  \<^verbatim>\<open>1000\<close> and the message names \<^verbatim>\<open>1000ms\<close>, not \<^verbatim>\<open>0ms\<close>.
\<close>

theorem zero_timeout_counterexample:
  "timeout (settings (Some (sql_handle ''postgres'' Never)) (Some (Num 0))) = Some (Num 0)
   \<and> effective_timeout (settings (Some (sql_handle ''postgres'' Never)) (Some (Num 0))) = Num 1000
   \<and> snd (pingCheck installed ''db'' (settings (Some (sql_handle ''postgres'' Never)) (Some (Num 0)))) =
       Inr [''db'' \<mapsto> [''status'' \<mapsto> VStr ''down'', ''message'' \<mapsto> VStr ''timeout of 1000ms exceeded'']]"
  by (simp add: pingCheck_def probe_defs example_defs number_defs down_message)

text \<open>
  C6, amended. The timeout budget is \<^verbatim>\<open>settings.timeout\<close> when that is supplied and
  truthy (neither \<^verbatim>\<open>0\<close> nor \<^verbatim>\<open>NaN\<close>), and \<^verbatim>\<open>1000\<close> ms otherwise; and whenever the
  liveness check, run under that budget, fails with the timeout error,
  \<^verbatim>\<open>pingCheck\<close> returns the down-record with the message
  \<^verbatim>\<open>timeout of {timeout}ms exceeded\<close> naming that budget.
\<close>

theorem timeout_budget_and_message:
  "effective_timeout opts =
     (case timeout opts of
        None \<Rightarrow> Num 1000
      | Some n \<Rightarrow> if n = Num 0 \<or> n = NaN then Num 1000 else n)
   \<and> (checkDependantPackages w = Inr ()
        \<and> resolve_connection w opts = Inr (Some c)
        \<and> snd (pingDb c (effective_timeout opts)) = Inl (PromiseTimeoutError m)
      \<longrightarrow> snd (pingCheck w k opts) =
            Inr [k \<mapsto> [''status'' \<mapsto> VStr ''down'',
                        ''message'' \<mapsto>
                          VStr (''timeout of '' @ toString (effective_timeout opts) @ ''ms exceeded'')]])"
proof (intro conjI impI)
  show "effective_timeout opts =
          (case timeout opts of
             None \<Rightarrow> Num 1000
           | Some n \<Rightarrow> if n = Num 0 \<or> n = NaN then Num 1000 else n)"
  proof (cases "timeout opts")
    case None
    then show ?thesis by (simp add: effective_timeout_def)
  next
    case (Some n)
    then show ?thesis by (cases n) (simp_all add: effective_timeout_def)
  qed
next
  assume "checkDependantPackages w = Inr ()
        \<and> resolve_connection w opts = Inr (Some c)
        \<and> snd (pingDb c (effective_timeout opts)) = Inl (PromiseTimeoutError m)"
  then show "snd (pingCheck w k opts) =
            Inr [k \<mapsto> [''status'' \<mapsto> VStr ''down'',
                        ''message'' \<mapsto>
                          VStr (''timeout of '' @ toString (effective_timeout opts) @ ''ms exceeded'')]]"
    by (simp add: pingCheck_with_handle on_error_def down_message)
qed

theorem timeout_budget_and_message_witness:
  "effective_timeout (settings (Some (sql_handle ''postgres'' Never)) (Some (Num 50))) = Num 50
   \<and> checkDependantPackages installed = Inr ()
   \<and> snd (pingDb (sql_handle ''postgres'' Never) (Num 50)) = Inl (PromiseTimeoutError [])
   \<and> snd (pingCheck installed ''db''
             (settings (Some (sql_handle ''postgres'' Never)) (Some (Num 50)))) =
        Inr [''db'' \<mapsto> [''status'' \<mapsto> VStr ''down'',
                     ''message'' \<mapsto> VStr ''timeout of 50ms exceeded'']]
   \<and> snd (pingCheck installed ''db''
             (settings (Some (sql_handle ''postgres'' Never)) (Some (Other ''2.5'' 2)))) =
        Inr [''db'' \<mapsto> [''status'' \<mapsto> VStr ''down'',
                     ''message'' \<mapsto> VStr ''timeout of 2.5ms exceeded'']]"
proof -
  let ?slow = "sql_handle ''postgres'' Never"
  have budget: "effective_timeout (settings (Some ?slow) (Some (Num 50))) = Num 50"
    "effective_timeout (settings (Some ?slow) (Some (Other ''2.5'' 2))) = Other ''2.5'' 2"
    by (simp_all add: effective_timeout_def settings_def)
  have slow: "snd (pingDb ?slow ms) = Inl (PromiseTimeoutError [])" for ms
    by (simp add: pingDb_def promiseTimeout_def sql_handle_def)
  have whole: "snd (pingCheck installed ''db'' (settings (Some ?slow) (Some (Num 50)))) =
        Inr [''db'' \<mapsto> [''status'' \<mapsto> VStr ''down'',
                     ''message'' \<mapsto> VStr ''timeout of 50ms exceeded'']]"
    using timeout_budget_and_message
            [of "settings (Some ?slow) (Some (Num 50))" installed ?slow "[]" "''db''"]
          installed_ok supplied_handle [of installed ?slow "Some (Num 50)"] slow
    by (simp add: budget number_defs)
  have fractional: "snd (pingCheck installed ''db'' (settings (Some ?slow) (Some (Other ''2.5'' 2)))) =
        Inr [''db'' \<mapsto> [''status'' \<mapsto> VStr ''down'',
                     ''message'' \<mapsto> VStr ''timeout of 2.5ms exceeded'']]"
    using timeout_budget_and_message
            [of "settings (Some ?slow) (Some (Other ''2.5'' 2))" installed ?slow "[]" "''db''"]
          installed_ok supplied_handle [of installed ?slow "Some (Other ''2.5'' 2)"] slow
    by (simp add: effective_timeout_def settings_def)
  from budget(1) installed_ok slow [of "Num 50"] whole fractional show ?thesis
    by (intro conjI)
qed

text \<open>
  C7. When the liveness check fails with an error other than the timeout error, the
  probe classifies it. On the MongoDB path a rejected \<^verbatim>\<open>connect\<close> (settling within the
  budget) becomes a \<^verbatim>\<open>MongoConnectionError\<close> with the message of the underlying error; a
  \<^verbatim>\<open>MongoConnectionError\<close> yields the down-record with exactly that message; any other
  error yields the down-record with the message \<^verbatim>\<open>{key} is not available\<close>, which
  holds nothing of the error.
\<close>

theorem failure_classification:
  assumes "checkDependantPackages w = Inr ()"
      and "resolve_connection w opts = Inr (Some c)"
  shows "(options_type c = ''mongodb'' \<and> mongo_url c = Inr url
            \<and> driver_buildConnectionOptions c = Inr mopts
            \<and> driver_mongodb_MongoClient_connect c url mopts = Inr (Settles t (Inl e))
            \<and> t \<le> timer_delay (effective_timeout opts)
          \<longrightarrow> snd (pingDb c (effective_timeout opts)) = Inl (MongoConnectionError (message e)))
         \<and> (snd (pingDb c (effective_timeout opts)) = Inl (MongoConnectionError m)
          \<longrightarrow> snd (pingCheck w k opts) =
                Inr [k \<mapsto> [''status'' \<mapsto> VStr ''down'', ''message'' \<mapsto> VStr m]])
         \<and> (snd (pingDb c (effective_timeout opts)) = Inl err
              \<and> (\<forall>x. err \<noteq> PromiseTimeoutError x) \<and> (\<forall>x. err \<noteq> MongoConnectionError x)
          \<longrightarrow> snd (pingCheck w k opts) =
                Inr [k \<mapsto> [''status'' \<mapsto> VStr ''down'', ''message'' \<mapsto> VStr (k @ '' is not available'')]])"
proof (intro conjI impI)
  assume "options_type c = ''mongodb'' \<and> mongo_url c = Inr url
            \<and> driver_buildConnectionOptions c = Inr mopts
            \<and> driver_mongodb_MongoClient_connect c url mopts = Inr (Settles t (Inl e))
            \<and> t \<le> timer_delay (effective_timeout opts)"
  then show "snd (pingDb c (effective_timeout opts)) = Inl (MongoConnectionError (message e))"
    by (simp add: pingDb_def checkMongoDBConnection_def promiseTimeout_def)
next
  assume "snd (pingDb c (effective_timeout opts)) = Inl (MongoConnectionError m)"
  with assms show "snd (pingCheck w k opts) =
                Inr [k \<mapsto> [''status'' \<mapsto> VStr ''down'', ''message'' \<mapsto> VStr m]]"
    by (simp add: pingCheck_with_handle on_error_def down_message)
next
  assume "snd (pingDb c (effective_timeout opts)) = Inl err
              \<and> (\<forall>x. err \<noteq> PromiseTimeoutError x) \<and> (\<forall>x. err \<noteq> MongoConnectionError x)"
  with assms show "snd (pingCheck w k opts) =
                Inr [k \<mapsto> [''status'' \<mapsto> VStr ''down'', ''message'' \<mapsto> VStr (k @ '' is not available'')]]"
    by (cases err; simp add: pingCheck_with_handle on_error_def down_message)
qed

theorem failure_classification_witness:
  "checkDependantPackages installed = Inr ()
   \<and> snd (pingCheck installed ''db''
             (settings (Some (mongo_handle (Settles 7 (Inl (OtherError ''connect ECONNREFUSED 127.0.0.1:27017''))))) None)) =
        Inr [''db'' \<mapsto> [''status'' \<mapsto> VStr ''down'',
                     ''message'' \<mapsto> VStr ''connect ECONNREFUSED 127.0.0.1:27017'']]
   \<and> snd (pingCheck installed ''db''
             (settings (Some (sql_handle ''postgres'' (Settles 3 (Inl (OtherError ''password authentication failed''))))) None)) =
        Inr [''db'' \<mapsto> [''status'' \<mapsto> VStr ''down'', ''message'' \<mapsto> VStr ''db is not available'']]"
proof -
  let ?refused = "OtherError ''connect ECONNREFUSED 127.0.0.1:27017''"
  let ?m = "mongo_handle (Settles 7 (Inl ?refused))"
  let ?denied = "OtherError ''password authentication failed''"
  let ?p = "sql_handle ''postgres'' (Settles 3 (Inl ?denied))"
  have budget: "effective_timeout (settings c None) = Num 1000" for c
    by (simp add: effective_timeout_def settings_def)
  have mongo: "options_type ?m = ''mongodb'' \<and> mongo_url ?m = Inr ''mongodb://localhost/test''
                 \<and> driver_buildConnectionOptions ?m = Inr VUndefined
                 \<and> driver_mongodb_MongoClient_connect ?m ''mongodb://localhost/test'' VUndefined =
                     Inr (Settles 7 (Inl ?refused))
                 \<and> 7 \<le> timer_delay (effective_timeout (settings (Some ?m) None))"
    by (simp add: mongo_handle_def mongo_url_def budget)
  have sql: "snd (pingDb ?p (effective_timeout (settings (Some ?p) None))) = Inl ?denied
               \<and> (\<forall>x. ?denied \<noteq> PromiseTimeoutError x) \<and> (\<forall>x. ?denied \<noteq> MongoConnectionError x)"
    by (simp add: pingDb_def promiseTimeout_def sql_handle_def budget)
  note m1 = failure_classification [OF installed_ok supplied_handle [of installed ?m None],
      where k = "''db''" and url = "''mongodb://localhost/test''"
        and mopts = VUndefined and t = 7 and e = ?refused and m = "message ?refused"]
  note p1 = failure_classification [OF installed_ok supplied_handle [of installed ?p None],
      where k = "''db''" and err = ?denied]
  from m1 mongo p1 sql installed_ok show ?thesis
    by simp
qed

text \<open>
  C8. For a MongoDB handle whose side connection opens, the outcome of closing it does not
  matter: whether \<^verbatim>\<open>client.close()\<close> settles with a value or with an error, the check
  resolves once it has settled, and the probe reports \<^verbatim>\<open>up\<close> when that is within the
  budget (past the budget the record is the timeout record, never one made from the error
  of \<^verbatim>\<open>close\<close>).
\<close>

theorem close_failure_is_swallowed:
  assumes "checkDependantPackages w = Inr ()"
      and "resolve_connection w opts = Inr (Some c)"
      and "options_type c = ''mongodb''"
      and "mongo_url c = Inr url"
      and "driver_buildConnectionOptions c = Inr mopts"
      and "driver_mongodb_MongoClient_connect c url mopts = Inr (Settles t1 (Inr client))"
      and "close client = Settles t2 closed"
  shows "checkMongoDBConnection c = ([MongoConnect url mopts, MongoClose], Settles (t1 + t2) (Inr VUndefined))
         \<and> pingCheck w k opts =
           ([MongoConnect url mopts, MongoClose],
            Inr (if t1 + t2 \<le> timer_delay (effective_timeout opts)
                 then [k \<mapsto> [''status'' \<mapsto> VStr ''up'']]
                 else [k \<mapsto> [''status'' \<mapsto> VStr ''down'',
                        ''message'' \<mapsto> VStr (''timeout of '' @ toString (effective_timeout opts) @ ''ms exceeded'')]]))"
proof -
  have chk: "checkMongoDBConnection c =
               ([MongoConnect url mopts, MongoClose], Settles (t1 + t2) (Inr VUndefined))"
    using assms(4-7) by (simp add: checkMongoDBConnection_def)
  then have "pingDb c (effective_timeout opts) =
               ([MongoConnect url mopts, MongoClose],
                if t1 + t2 \<le> timer_delay (effective_timeout opts) then Inr VUndefined
                else Inl (PromiseTimeoutError []))"
    using assms(3) by (simp add: pingDb_def promiseTimeout_def)
  with assms(1,2) chk show ?thesis
    by (simp add: pingCheck_with_handle on_error_def down_message up_plain)
qed

theorem close_failure_is_swallowed_witness:
  "checkDependantPackages installed = Inr ()
   \<and> close (MongoClient (Settles 2 (Inl (OtherError ''Topology is closed'')))) =
        Settles 2 (Inl (OtherError ''Topology is closed''))
   \<and> pingCheck installed ''db''
        (settings (Some (mongo_handle (Settles 10 (Inr (MongoClient (Settles 2 (Inl (OtherError ''Topology is closed''))))))))
                  None) =
        ([MongoConnect ''mongodb://localhost/test'' VUndefined, MongoClose],
         Inr [''db'' \<mapsto> [''status'' \<mapsto> VStr ''up'']])"
proof -
  let ?client = "MongoClient (Settles 2 (Inl (OtherError ''Topology is closed'')))"
  let ?m = "mongo_handle (Settles 10 (Inr ?client))"
  have h3: "options_type ?m = ''mongodb''"
    by (simp add: mongo_handle_def)
  have h4: "mongo_url ?m = Inr ''mongodb://localhost/test''"
    by (simp add: mongo_handle_def mongo_url_def)
  have h5: "driver_buildConnectionOptions ?m = Inr VUndefined"
    by (simp add: mongo_handle_def)
  have h6: "driver_mongodb_MongoClient_connect ?m ''mongodb://localhost/test'' VUndefined =
              Inr (Settles 10 (Inr ?client))"
    by (simp add: mongo_handle_def)
  have h7: "close ?client = Settles 2 (Inl (OtherError ''Topology is closed''))"
    by simp
  from close_failure_is_swallowed [OF installed_ok supplied_handle h3 h4 h5 h6 h7, of "''db''" None]
       installed_ok h7
  show ?thesis
    by (simp add: effective_timeout_def settings_def)
qed


end
